theory Spec2Isabelle
  imports Main "HOL-Library.Word"
begin

unbundle bit_operations_syntax

section \<open>Link layer of the daemon (core.h, core.c)\<close>

text \<open>
  Bytes on the link are \<open>unsigned char\<close> / \<open>uint8_t\<close>, the checksum is a
  \<open>uint16_t\<close>. A C buffer that is handed around as a pointer together with a byte count
  is modelled as the list of exactly those bytes, so the count is the length of the list.
\<close>

type_synonym byte = "8 word"

subsection \<open>Constants of core.h\<close>

definition NUM_CORE :: nat where "NUM_CORE = 16"
definition PC_PKTLEN :: nat where "PC_PKTLEN = 514"
definition RXBUF_SZ :: nat where "RXBUF_SZ = 4000"

definition PC_CMD_OP_READ :: byte where "PC_CMD_OP_READ = 0x04"
definition PC_CMD_OP_MASK :: byte where "PC_CMD_OP_MASK = 0x0C"
definition PC_CMD_AUTOINC :: byte where "PC_CMD_AUTOINC = 0x02"

definition SLIP_END :: byte where "SLIP_END = 192"
definition SLIP_ESC :: byte where "SLIP_ESC = 219"
definition INPKT_END :: byte where "INPKT_END = 220"
definition INPKT_ESC :: byte where "INPKT_ESC = 221"

subsection \<open>crc16\<close>

text \<open>
  One round of the \<open>while (length --)\<close> loop of \<open>crc16\<close>. The C code computes in
  \<open>int\<close> after promotion and truncates on the assignments to the \<open>uint8_t x\<close> and the
  \<open>uint16_t crc\<close>; shifts to the left and exclusive-or commute with that truncation, so
  the round is written on words of the width of the variable assigned.
\<close>

definition crc16_step :: "16 word \<Rightarrow> byte \<Rightarrow> 16 word" where
  "crc16_step crc c =
     (let x0 = (ucast (drop_bit 8 crc) :: byte) XOR c;
          x = x0 XOR drop_bit 4 x0
      in push_bit 8 crc XOR push_bit 12 (ucast x) XOR push_bit 5 (ucast x) XOR ucast x)"

fun crc16_loop :: "16 word \<Rightarrow> byte list \<Rightarrow> 16 word" where
  "crc16_loop crc [] = crc"
| "crc16_loop crc (c # pkt) = crc16_loop (crc16_step crc c) pkt"

definition crc16 :: "byte list \<Rightarrow> 16 word" where
  "crc16 pkt = crc16_loop 0x0000 pkt"

text \<open>The two bytes \<open>pctoslip\<close> stores behind the packet: \<open>crc >> 8\<close> and \<open>crc & 0x00ff\<close>.\<close>

definition crc_trailer :: "byte list \<Rightarrow> byte list" where
  "crc_trailer pcpkt =
     (let crc = crc16 pcpkt in [ucast (drop_bit 8 crc), ucast (crc AND 0x00ff)])"

subsection \<open>pctoslip\<close>

text \<open>
  The \<open>for (dpix = 0; dpix < len+2; dpix++)\<close> loop: every byte of the packet is copied to
  the output, END and ESC replaced by their two byte sequences.
\<close>

fun slip_stuff :: "byte list \<Rightarrow> byte list" where
  "slip_stuff [] = []"
| "slip_stuff (c # pcpkt) =
     (if c = SLIP_END then SLIP_ESC # INPKT_END # slip_stuff pcpkt
      else if c = SLIP_ESC then SLIP_ESC # INPKT_ESC # slip_stuff pcpkt
      else c # slip_stuff pcpkt)"

text \<open>
  \<open>pctoslip\<close> returns the packet buffer as it leaves it (the checksum stored at
  \<open>pcpkt[len]\<close> and \<open>pcpkt[len+1]\<close>) and the bytes written to \<open>slppkt\<close>; the C return
  value is the length of the second component, 0 for a packet longer than \<open>PC_PKTLEN\<close>.
\<close>

definition pctoslip :: "byte list \<Rightarrow> byte list \<times> byte list" where
  "pctoslip pcpkt =
     (if length pcpkt > PC_PKTLEN then (pcpkt, [])
      else let pk = pcpkt @ crc_trailer pcpkt
           in (pk, SLIP_END # slip_stuff pk @ [SLIP_END]))"

subsection \<open>receivePkt\<close>

text \<open>The states of the SLIP decoder, as \<open>#define\<close>d at the top of core.c.\<close>

datatype slstate = SKIP_FIRST_ZEROES | AWAITING_PKT | IN_PACKET | INESCAPE

text \<open>
  What is written with \<open>pclog\<close>: the message macros of core.h and the literal messages
  of core.c. \<open>M_NOSO\<close> carries the \<open>core_id\<close> it is formatted with, the message on a
  failed \<open>write\<close> its \<open>errno\<close>.
\<close>

datatype log_msg =
    M_BADPKT | M_BADSLIP | M_NOREAD | M_NOSO int
  | Skipping_zero_byte | Skipping_empty_frame
  | Invalid_packet_of_length | Error_sending_to_FPGA int

text \<open>
  What the scan of the receive buffer does to the outside, in order: a call of
  \<open>dispatch_packet(pcpkt, dpix)\<close> with the bytes decoded so far, or a log line.
\<close>

datatype rx_event = Dispatch "byte list" | Log log_msg

text \<open>
  The variables of the \<open>for (i = 0; i < Slix; i++)\<close> loop of \<open>receivePkt\<close>. \<open>Slrx\<close>
  holds the first \<open>Slix\<close> bytes of the global receive buffer (the loop reads no other),
  \<open>rx_pcpkt\<close> the first \<open>dpix\<close> bytes of the local \<open>pcpkt\<close>, \<open>rx_i\<close> is the value
  of \<open>i\<close> at the next test of the loop condition, and \<open>rx_returned\<close> is set by the
  \<open>return\<close> inside the loop.
\<close>

record rx_vars =
  Slrx :: "byte list"
  s_slstate :: slstate
  rx_pcpkt :: "byte list"
  rx_i :: nat
  rx_out :: "rx_event list"
  rx_returned :: bool

text \<open>
  One pass through the loop body followed by the \<open>i++\<close> of the loop header, for
  \<open>rx_i v < length (Slrx v)\<close>. The branches are those of the C code, in its order.
  After \<open>memmove(Slrx, Slrx + i, Slix - i)\<close> the loop sets \<open>i = 0\<close> and the header
  increments it, so the scan goes on at index 1 of the moved buffer. In the branch of a
  stray ESC the new \<open>Slix\<close> is \<open>Slix - i - 1\<close>, one less than the bytes moved.
\<close>

definition rx_body :: "rx_vars \<Rightarrow> rx_vars" where
  "rx_body v =
     (let c = Slrx v ! rx_i v; i = rx_i v in
      if c = SLIP_END then
        (if s_slstate v = IN_PACKET then
           (let v1 = (if rx_pcpkt v \<noteq> []
                      then v\<lparr>rx_out := rx_out v @ [Dispatch (rx_pcpkt v)]\<rparr> else v) in
            if i = length (Slrx v) then v1\<lparr>Slrx := [], rx_returned := True\<rparr>
            else v1\<lparr>Slrx := drop i (Slrx v), s_slstate := IN_PACKET,
                    rx_pcpkt := [], rx_i := Suc 0\<rparr>)
         else v\<lparr>rx_i := Suc i\<rparr>)
      else if c = SLIP_ESC then
        (if s_slstate v = IN_PACKET then v\<lparr>s_slstate := INESCAPE, rx_i := Suc i\<rparr>
         else v\<lparr>rx_out := rx_out v @ [Log M_BADSLIP],
                Slrx := take (length (Slrx v) - i - 1) (drop i (Slrx v)),
                s_slstate := IN_PACKET, rx_pcpkt := [], rx_i := Suc 0\<rparr>)
      else if c = INPKT_END \<and> s_slstate v = INESCAPE then
        v\<lparr>rx_pcpkt := rx_pcpkt v @ [SLIP_END], s_slstate := IN_PACKET, rx_i := Suc i\<rparr>
      else if c = INPKT_ESC \<and> s_slstate v = INESCAPE then
        v\<lparr>rx_pcpkt := rx_pcpkt v @ [SLIP_ESC], s_slstate := IN_PACKET, rx_i := Suc i\<rparr>
      else if c = 0x00 \<and> s_slstate v = SKIP_FIRST_ZEROES then
        v\<lparr>rx_out := rx_out v @ [Log Skipping_zero_byte],
           s_slstate := SKIP_FIRST_ZEROES, rx_i := Suc i\<rparr>
      else if c \<noteq> 0x00 \<and> s_slstate v = SKIP_FIRST_ZEROES then
        (if c = SLIP_END then
           v\<lparr>rx_out := rx_out v @ [Log Skipping_empty_frame],
              s_slstate := IN_PACKET, rx_i := Suc i\<rparr>
         else v\<lparr>rx_pcpkt := rx_pcpkt v @ [c], s_slstate := IN_PACKET, rx_i := Suc i\<rparr>)
      else v\<lparr>rx_pcpkt := rx_pcpkt v @ [c], rx_i := Suc i\<rparr>)"

text \<open>The loop. Every pass brings \<open>i\<close> closer to \<open>Slix\<close>, so it ends.\<close>

function rx_loop :: "rx_vars \<Rightarrow> rx_vars" where
  "rx_loop v =
     (if \<not> rx_returned v \<and> rx_i v < length (Slrx v) then rx_loop (rx_body v) else v)"
  by pat_completeness auto
termination
  by (relation "measure (\<lambda>v. length (Slrx v) - rx_i v)")
     (auto simp add: rx_body_def Let_def)

declare rx_loop.simps [simp del]

text \<open>\<open>EAGAIN\<close> of the platform's errno.h (11 on Linux).\<close>

definition EAGAIN :: int where "EAGAIN = 11"

text \<open>
  The outcome of \<open>read(fpgaFD, &(Slrx[Slix]), (RXBUF_SZ - Slix))\<close>: an error with its
  \<open>errno\<close>, or the bytes pending on the port, of which \<open>read\<close> hands over at most
  \<open>RXBUF_SZ - Slix\<close>; none handed over is the return value 0.
\<close>

datatype read_result = Read_error int | Read_bytes "byte list"

text \<open>
  \<open>receivePkt\<close> either ends the process (\<open>exit(-1)\<close>) or returns, leaving the buffer
  \<open>Slrx\<close>/\<open>Slix\<close> and the \<open>static\<close> decoder state for the next call.
\<close>

datatype rx_outcome =
    Exit_process "rx_event list"
  | Returned "byte list" slstate "rx_event list"

definition receivePkt :: "byte list \<Rightarrow> slstate \<Rightarrow> read_result \<Rightarrow> rx_outcome" where
  "receivePkt slrx st rd =
     (case rd of
        Read_error errno \<Rightarrow>
          (if errno \<noteq> EAGAIN then Exit_process [Log M_NOREAD] else Returned slrx st [])
      | Read_bytes pending \<Rightarrow>
          (let got = take (RXBUF_SZ - length slrx) pending in
           if got = [] then Exit_process [Log M_NOREAD]
           else let v = rx_loop \<lparr>Slrx = slrx @ got, s_slstate = st, rx_pcpkt = [],
                                  rx_i = 0, rx_out = [], rx_returned = False\<rparr>
                in Returned (Slrx v) (s_slstate v) (rx_out v)))"

section \<open>Packet router (core.c)\<close>

subsection \<open>Packets and the table of cores\<close>

text \<open>
  A \<open>PC_PKT\<close> is read through a byte pointer: \<open>cmd\<close>, \<open>core\<close>, \<open>reg\<close>, \<open>count\<close> are
  the bytes 0 to 3, \<open>data[k]\<close> is byte \<open>4 + k\<close>. A packet is the list of its bytes that
  are in use; a byte behind them is whatever the buffer held before, of which the model
  says nothing.
\<close>

definition pkt_cmd :: "byte list \<Rightarrow> byte" where "pkt_cmd p = p ! 0"
definition pkt_core :: "byte list \<Rightarrow> byte" where "pkt_core p = p ! 1"
definition pkt_reg :: "byte list \<Rightarrow> byte" where "pkt_reg p = p ! 2"
definition pkt_count :: "byte list \<Rightarrow> byte" where "pkt_count p = p ! 3"

text \<open>
  \<open>CORE\<close> of core.h. The callback \<open>pcb\<close> is a function pointer, modelled by its address,
  0 when none is registered.
\<close>

record CORE =
  slot_id :: int
  core_id :: int
  driv_id :: int
  pcb :: nat

subsection \<open>dispatch_packet\<close>

text \<open>\<open>pktcore = ppkt->core & 0x0f\<close>.\<close>

definition pktcore_of :: "byte list \<Rightarrow> nat" where
  "pktcore_of inbuf = unat (pkt_core inbuf AND 0x0f)"

text \<open>
  The chain of sanity checks that sets \<open>bogus\<close>; \<open>len\<close> is an \<open>int\<close>, and so are
  \<open>requested_bytes\<close>, \<open>returned_bytes\<close> and \<open>remaining_bytes\<close>.
\<close>

definition bogus_of :: "byte list \<Rightarrow> nat" where
  "bogus_of inbuf =
     (let len = int (length inbuf) in
      if len < 6 then 1
      else if crc16 inbuf \<noteq> 0 then 2
      else if pkt_cmd inbuf AND PC_CMD_OP_MASK = 0 then 3
      else if pktcore_of inbuf \<ge> NUM_CORE then 4
      else if pkt_cmd inbuf AND PC_CMD_OP_READ \<noteq> 0 then
        (let requested_bytes = uint (pkt_count inbuf);
             returned_bytes = len - 7;
             remaining_bytes = uint (inbuf ! (length inbuf - 3))
         in if remaining_bytes \<noteq> requested_bytes - returned_bytes then 5 else 0)
      else 0)"

text \<open>
  What \<open>dispatch_packet\<close> does with a frame: discard it with the value of \<open>bogus\<close>,
  discard it because the core has no callback, or call the callback \<open>Core[pktcore].pcb\<close>
  with \<open>&(Slots[Core[pktcore].slot_id])\<close>, the packet \<open>ppkt\<close> and \<open>len-2\<close>. The slot is
  given by the index the address is computed from.
\<close>

datatype dispatch_result =
    Discarded nat
  | No_driver
  | Callback nat int "byte list" int

text \<open>
  \<open>dispatch_packet(inbuf, len)\<close> with the table \<open>Core\<close>, returning what it did and what
  it logged. The dump of the packet that debug mode prints to stdout is left out.
\<close>

definition dispatch_packet ::
  "(nat \<Rightarrow> CORE) \<Rightarrow> byte list \<Rightarrow> dispatch_result \<times> log_msg list" where
  "dispatch_packet Core inbuf =
     (let pktcore = pktcore_of inbuf;
          bogus = bogus_of inbuf
      in if bogus \<noteq> 0 then (Discarded bogus, [M_BADPKT])
         else if pcb (Core pktcore) \<noteq> 0 then
           (Callback (pcb (Core pktcore)) (slot_id (Core pktcore)) inbuf
              (int (length inbuf) - 2), [])
         else (No_driver, [M_NOSO (core_id (Core pktcore))]))"

text \<open>
  The table as \<open>globalinit\<close> of main.c fills it: no slot (\<open>-1\<close>), no driver, no callback.
\<close>

definition globalinit_Core :: "nat \<Rightarrow> CORE" where
  "globalinit_Core i = \<lparr>slot_id = -1, core_id = int i, driv_id = 0, pcb = 0\<rparr>"

section \<open>Transmit (core.c)\<close>

text \<open>
  The outcome of \<open>write(fpgaFD, sltx, txcount)\<close>: \<open>-1\<close> with an \<open>errno\<close>, or the number
  of bytes the port took.
\<close>

datatype write_result = Write_error int | Write_count nat

text \<open>
  \<open>pc_tx_pkt\<close> encodes into the local \<open>unsigned char sltx[PC_PKTLEN]\<close>, and \<open>pctoslip\<close>
  stores the checksum behind the packet inside the caller's \<open>PC_PKT\<close>, which has
  \<open>PC_PKTLEN\<close> bytes. A store outside either of them is not defined in C and is a value of
  its own here.
\<close>

datatype fault = Buffer_overrun

record tx_result =
  tx_ret :: int
  tx_inpkt :: "byte list"
  tx_wire :: "byte list"
  tx_log :: "log_msg list"

text \<open>
  The two assignments \<open>inpkt->cmd = inpkt->cmd | 0xf0\<close> and
  \<open>inpkt->core = inpkt->core | 0xe0\<close>, on a packet of at least 4 bytes.
\<close>

definition force_nibbles :: "byte list \<Rightarrow> byte list" where
  "force_nibbles inpkt = inpkt[0 := pkt_cmd inpkt OR 0xf0, 1 := pkt_core inpkt OR 0xe0]"

text \<open>
  \<open>pc_tx_pkt(pcore, inpkt, len)\<close>, with the packet as its first \<open>len\<close> bytes, the global
  \<open>fpgaFD\<close> and the outcome of the \<open>write\<close>. \<open>pcore\<close> is used for a log text only and is
  left out, as is the dump debug mode prints. The result holds the return value, the
  caller's packet as the call leaves it, the bytes the port took and the log.
\<close>

definition pc_tx_pkt :: "int \<Rightarrow> byte list \<Rightarrow> write_result \<Rightarrow> fault + tx_result" where
  "pc_tx_pkt fpgaFD inpkt wr =
     (if int (length inpkt) < 4 then
        Inr \<lparr>tx_ret = -1, tx_inpkt = inpkt, tx_wire = [], tx_log = [Invalid_packet_of_length]\<rparr>
      else
        let pkt1 = force_nibbles inpkt in
        if fpgaFD = -1 then
          Inr \<lparr>tx_ret = -1, tx_inpkt = pkt1, tx_wire = [], tx_log = []\<rparr>
        else
          let (pkt2, sltx) = pctoslip pkt1 in
          if (length pkt1 \<le> PC_PKTLEN \<and> PC_PKTLEN < length pkt2) \<or> PC_PKTLEN < length sltx
          then Inl Buffer_overrun
          else
            (case wr of
               Write_error errno \<Rightarrow>
                 Inr \<lparr>tx_ret = -1, tx_inpkt = pkt2, tx_wire = [],
                      tx_log = (if errno \<noteq> EAGAIN then [Error_sending_to_FPGA errno] else [])\<rparr>
             | Write_count sntcount \<Rightarrow>
                 if sntcount \<noteq> length sltx then
                   Inr \<lparr>tx_ret = int sntcount, tx_inpkt = pkt2,
                        tx_wire = take sntcount sltx, tx_log = []\<rparr>
                 else Inr \<lparr>tx_ret = 0, tx_inpkt = pkt2, tx_wire = sltx, tx_log = []\<rparr>))"

section \<open>Drivers\<close>

text \<open>
  The services of the daemon a driver calls (\<open>del_timer\<close>, \<open>add_timer\<close>, \<open>send_ui\<close>,
  \<open>prompt\<close>, \<open>bcst_ui\<close>, \<open>pclog\<close>) are not among the sources. A handler is modelled by
  the change of the driver's own data and the list of the calls it makes, in order, each
  with its arguments; what a service returns to the handler is a parameter.
\<close>

datatype service_call =
    Del_timer nat
  | Add_timer_oneshot nat
  | Send_ui string int
  | Prompt int
  | Bcst_ui string int
  | Pclog string

text \<open>
  The fields of \<open>RSC\<close> the handlers below use (the structure is declared in main.h; its
  fields are listed in Docs/design.txt).
\<close>

record RSC =
  bkey :: int
  uilock :: int




definition E_WRFPGA :: string where
  "E_WRFPGA = ''ERROR 100 : Error writing to the FPGA card. Is link overloaded?'' @ [CHR 0x0A]"

subsection \<open>basys3.c\<close>

definition BASYS_REG_SWITCHES :: byte where "BASYS_REG_SWITCHES = 0x00"

text \<open>\<open>BASYSDEV\<close>; a timer handle is a pointer, modelled by its address, 0 for none.\<close>

record BASYSDEV =
  lastswitch :: "32 word"
  disp_text :: string
  segs :: "int list"
  ptimer :: nat
  drivlist :: "int list"


text \<open>
  The read packet \<open>usercmd\<close> builds for a get of the switches: \<open>cmd\<close>, \<open>core\<close> (the
  \<open>core_id\<close> of the driver's core, stored into a \<open>uint8_t\<close>), \<open>reg\<close> and \<open>count\<close>; it
  is sent with \<open>len = 4\<close>.
\<close>

definition read_switches_pkt :: "int \<Rightarrow> byte list" where
  "read_switches_pkt coreid =
     [PC_CMD_OP_READ OR PC_CMD_AUTOINC, word_of_int coreid, BASYS_REG_SWITCHES, 3]"

text \<open>
  The cast \<open>(char) cn\<close> of an \<open>int\<close>, stored into the \<open>int uilock\<close>. Whether \<open>char\<close> is
  signed is the platform's choice and a parameter here.
\<close>

definition char_cast :: "bool \<Rightarrow> int \<Rightarrow> int" where
  "char_cast char_signed x =
     (if char_signed then sint (word_of_int x :: 8 word) else uint (word_of_int x :: 8 word))"

text \<open>
  The branch \<open>(cmd == PCGET) && (rscid == RSC_SWITCHES)\<close> of \<open>usercmd\<close> of basys3.c.
  The four tests before it compare \<open>(cmd, rscid)\<close> with other pairs, so it is the branch
  taken for a get of the switches. Parameters: the signedness of \<open>char\<close>, \<open>fpgaFD\<close> and
  the outcome of the \<open>write\<close> for \<open>pc_tx_pkt\<close>, the handle \<open>add_timer\<close> returns, the
  \<open>core_id\<close> of the driver's core, the session \<open>cn\<close> and the size \<open>*plen\<close> of the reply
  buffer. \<open>snprintf\<close> stores at most \<open>*plen - 1\<close> characters and returns the length of
  the whole text. The result holds the reply buffer, \<open>*plen\<close>, the driver's data, the
  calls made and the bytes that went to the port.
\<close>

record usercmd_result =
  uc_buf :: string
  uc_plen :: int
  uc_dev :: "BASYSDEV \<times> RSC"
  uc_calls :: "service_call list"
  uc_wire :: "byte list"

definition usercmd_pcget_switches ::
  "bool \<Rightarrow> int \<Rightarrow> write_result \<Rightarrow> nat \<Rightarrow> int \<Rightarrow> int \<Rightarrow> int \<Rightarrow> BASYSDEV \<times> RSC
     \<Rightarrow> fault + usercmd_result" where
  "usercmd_pcget_switches char_signed fpgaFD wr new_timer coreid cn plen dev =
     (let pctx = fst dev; prsc = snd dev;
          pkt = read_switches_pkt coreid
      in case pc_tx_pkt fpgaFD pkt wr of
           Inl f \<Rightarrow> Inl f
         | Inr tx \<Rightarrow>
             if tx_ret tx \<noteq> 0 then
               Inr \<lparr>uc_buf = take (nat (plen - 1)) E_WRFPGA, uc_plen = int (length E_WRFPGA),
                    uc_dev = dev, uc_calls = [], uc_wire = tx_wire tx\<rparr>
             else
               let (pctx1, calls) =
                     (if ptimer pctx = 0
                      then (pctx\<lparr>ptimer := new_timer\<rparr>, [Add_timer_oneshot 100])
                      else (pctx, []))
               in Inr \<lparr>uc_buf = [], uc_plen = 0,
                       uc_dev = (pctx1, prsc\<lparr>uilock := char_cast char_signed cn\<rparr>),
                       uc_calls = calls, uc_wire = tx_wire tx\<rparr>)"

subsection \<open>The hostserial driver\<close>




section \<open>Properties of the checksum\<close>

lemma crc16_loop_append:
  "crc16_loop crc (xs @ ys) = crc16_loop (crc16_loop crc xs) ys"
  by (induction xs arbitrary: crc) simp_all

lemma crc16_step_high: "crc16_step crc (ucast (drop_bit 8 crc)) = push_bit 8 crc"
  by (simp add: crc16_step_def)

lemma low_byte_mask: "(0x00ff :: 16 word) = mask 8"
  by (simp add: mask_eq_exp_minus_1)

lemma high_of_shifted:
  "(ucast (drop_bit 8 (push_bit 8 crc :: 16 word)) :: byte) = ucast (crc AND 0x00ff)"
  unfolding low_byte_mask by (rule bit_word_eqI) (auto simp add: bit_simps)

lemma shifted_out: "push_bit 8 (push_bit 8 (crc :: 16 word)) = 0"
  by (rule bit_word_eqI) (auto simp add: bit_simps)

lemma crc16_step_low: "crc16_step (push_bit 8 crc) (ucast (crc AND 0x00ff)) = 0"
  by (simp add: crc16_step_def high_of_shifted shifted_out)

lemma crc16_with_trailer: "crc16 (P @ crc_trailer P) = 0"
  by (simp add: crc16_def crc_trailer_def Let_def crc16_loop_append
      crc16_step_high crc16_step_low)

text \<open>
  Claim C4. For every byte sequence \<open>P\<close>, of any length and content, the checksum of
  \<open>P\<close> followed by the big-endian two bytes of \<open>crc16 P\<close> is zero. The trailer is
  written out as \<open>pctoslip\<close> stores it, high byte \<open>crc >> 8\<close> first, then
  \<open>crc & 0x00ff\<close>.
\<close>

theorem crc16_append_own_crc_is_zero:
  "crc16 (P @ [ucast (drop_bit 8 (crc16 P)), ucast (crc16 P AND 0x00ff)]) = 0"
  using crc16_with_trailer [of P] by (simp add: crc_trailer_def Let_def)

section \<open>Properties of the SLIP encoder and decoder\<close>













lemma length_slip_stuff: "length (slip_stuff xs) \<le> 2 * length xs"
  by (induction xs) simp_all





text \<open>
  Claim C2, evaluated on the code. A byte other than \<open>0xDC\<close>, \<open>0xDD\<close>, END and ESC that
  arrives in the state \<open>INESCAPE\<close> falls through to the last branch of the loop, the one
  of a normal character: it is appended to the packet, nothing is logged and the state
  stays \<open>INESCAPE\<close>. On the stream \<open>C0 01 DB FF 02 C0\<close>, read in the state
  \<open>IN_PACKET\<close> or in the initial state \<open>SKIP_FIRST_ZEROES\<close>, \<open>receivePkt\<close> therefore
  logs nothing, calls \<open>dispatch_packet\<close> for nothing, keeps all six bytes in the buffer
  and returns in \<open>INESCAPE\<close>, where the closing END is ignored. The call that reads
  the next frame scans the buffer again from its head: it logs the protocol error only
  then, at the ESC, passes the bytes \<open>FF 02\<close> of the broken frame to
  \<open>dispatch_packet\<close>, and does not deliver the frame it has read.
\<close>

theorem escape_violation_not_detected:
  "rx_body \<lparr>Slrx = [0xC0, 0x01, 0xDB, 0xFF, 0x02, 0xC0], s_slstate = INESCAPE,
             rx_pcpkt = [0x01], rx_i = 3, rx_out = [], rx_returned = False\<rparr>
     = \<lparr>Slrx = [0xC0, 0x01, 0xDB, 0xFF, 0x02, 0xC0], s_slstate = INESCAPE,
        rx_pcpkt = [0x01, 0xFF], rx_i = 4, rx_out = [], rx_returned = False\<rparr>
   \<and> receivePkt [] IN_PACKET (Read_bytes [0xC0, 0x01, 0xDB, 0xFF, 0x02, 0xC0])
     = Returned [0xC0, 0x01, 0xDB, 0xFF, 0x02, 0xC0] INESCAPE []
   \<and> receivePkt [] SKIP_FIRST_ZEROES (Read_bytes [0xC0, 0x01, 0xDB, 0xFF, 0x02, 0xC0])
     = Returned [0xC0, 0x01, 0xDB, 0xFF, 0x02, 0xC0] INESCAPE []
   \<and> receivePkt [0xC0, 0x01, 0xDB, 0xFF, 0x02, 0xC0] INESCAPE
         (Read_bytes [0xC0, 0x88, 0xE1, 0x04, 0x04, 0x43, 0xBA, 0xC0])
     = Returned [0xC0, 0x88, 0xE1, 0x04, 0x04, 0x43, 0xBA] IN_PACKET
         [Log M_BADSLIP, Dispatch [0xFF, 0x02]]"
  by (simp add: receivePkt_def RXBUF_SZ_def rx_loop.simps rx_body_def
      SLIP_END_def SLIP_ESC_def INPKT_END_def INPKT_ESC_def)

section \<open>Properties of the packet router\<close>

lemma pktcore_of_bound: "pktcore_of inbuf < NUM_CORE"
proof -
  have "pkt_core inbuf AND 0x0f \<le> 0x0f" by (rule word_and_le1)
  then have "unat (pkt_core inbuf AND 0x0f) \<le> 15" by (simp add: word_le_nat_alt)
  then show ?thesis by (simp add: pktcore_of_def NUM_CORE_def)
qed

lemma bogus_of_not_4: "bogus_of inbuf \<noteq> 4"
  using pktcore_of_bound [of inbuf] by (simp add: bogus_of_def Let_def)

lemma bogus_of_cases: "bogus_of inbuf \<in> {0, 1, 2, 3, 5}"
  using pktcore_of_bound [of inbuf] by (simp add: bogus_of_def Let_def)

text \<open>
  Claim C10. The index of the target core is the core byte masked with \<open>0x0F\<close>, which is
  below \<open>NUM_CORE = 16\<close> for every frame; so the check \<open>pktcore >= NUM_CORE\<close> never
  fires: \<open>bogus\<close> is never 4, no frame is discarded for that reason, and the index
  \<open>dispatch_packet\<close> uses on the table \<open>Core\<close> is within bounds.
\<close>

theorem core_range_check_unreachable:
  "pktcore_of inbuf < NUM_CORE \<and> bogus_of inbuf \<noteq> 4
   \<and> fst (dispatch_packet Core inbuf) \<noteq> Discarded 4"
  using pktcore_of_bound [of inbuf] bogus_of_not_4 [of inbuf]
  by (simp add: dispatch_packet_def Let_def)

lemma op_read_bits:
  assumes "c AND PC_CMD_OP_MASK = PC_CMD_OP_READ"
  shows "c AND PC_CMD_OP_MASK \<noteq> 0" "c AND PC_CMD_OP_READ \<noteq> 0"
proof -
  show "c AND PC_CMD_OP_MASK \<noteq> 0"
    using assms by (simp add: PC_CMD_OP_MASK_def PC_CMD_OP_READ_def)
  have "c AND 4 = (c AND 0x0C) AND 4" by (simp add: and.assoc)
  also have "\<dots> = 4" using assms by (simp add: PC_CMD_OP_MASK_def PC_CMD_OP_READ_def)
  finally show "c AND PC_CMD_OP_READ \<noteq> 0" by (simp add: PC_CMD_OP_READ_def)
qed

lemma dispatch_callback_bogus:
  "fst (dispatch_packet Core inbuf) = Callback f s p n \<Longrightarrow> bogus_of inbuf = 0"
  by (simp add: dispatch_packet_def Let_def split: if_splits)

lemma bogus_0_read:
  assumes "bogus_of inbuf = 0" "pkt_cmd inbuf AND PC_CMD_OP_READ \<noteq> 0"
  shows "uint (inbuf ! (length inbuf - 3)) = uint (pkt_count inbuf) - (int (length inbuf) - 7)"
  using assms by (simp add: bogus_of_def Let_def split: if_splits)

lemma bogus_0_basic:
  assumes "bogus_of inbuf = 0"
  shows "6 \<le> length inbuf" "crc16 inbuf = 0" "pkt_cmd inbuf AND PC_CMD_OP_MASK \<noteq> 0"
  using assms by (simp_all add: bogus_of_def Let_def split: if_splits)

text \<open>
  Claim C5. \<open>dispatch_packet\<close> discards, with a log line and without calling a driver,
  every frame of fewer than 6 bytes. A frame whose op field is read reaches a callback
  only if the byte third from the end, \<open>inbuf[len-3]\<close>, equals the count requested minus
  the bytes returned, \<open>len - 7\<close>; a read frame of at least 6 bytes where the two differ
  is discarded with a log line (with \<open>bogus = 2\<close> when the checksum fails as well, else
  with \<open>bogus = 5\<close>).
\<close>

theorem dispatch_runt_and_read_length:
  "(length inbuf < 6 \<longrightarrow> dispatch_packet Core inbuf = (Discarded 1, [M_BADPKT]))
   \<and> (pkt_cmd inbuf AND PC_CMD_OP_MASK = PC_CMD_OP_READ
        \<and> fst (dispatch_packet Core inbuf) = Callback f s p n
      \<longrightarrow> uint (inbuf ! (length inbuf - 3))
            = uint (pkt_count inbuf) - (int (length inbuf) - 7))
   \<and> (6 \<le> length inbuf \<and> pkt_cmd inbuf AND PC_CMD_OP_MASK = PC_CMD_OP_READ
        \<and> uint (inbuf ! (length inbuf - 3))
            \<noteq> uint (pkt_count inbuf) - (int (length inbuf) - 7)
      \<longrightarrow> dispatch_packet Core inbuf
            = (Discarded (if crc16 inbuf \<noteq> 0 then 2 else 5), [M_BADPKT]))"
proof (intro conjI impI)
  assume "length inbuf < 6"
  then show "dispatch_packet Core inbuf = (Discarded 1, [M_BADPKT])"
    by (simp add: dispatch_packet_def bogus_of_def Let_def)
next
  assume a: "pkt_cmd inbuf AND PC_CMD_OP_MASK = PC_CMD_OP_READ
              \<and> fst (dispatch_packet Core inbuf) = Callback f s p n"
  then have "bogus_of inbuf = 0" by (blast dest: dispatch_callback_bogus)
  moreover have "pkt_cmd inbuf AND PC_CMD_OP_READ \<noteq> 0" using a op_read_bits(2) by blast
  ultimately show "uint (inbuf ! (length inbuf - 3))
            = uint (pkt_count inbuf) - (int (length inbuf) - 7)"
    by (rule bogus_0_read)
next
  assume a: "6 \<le> length inbuf \<and> pkt_cmd inbuf AND PC_CMD_OP_MASK = PC_CMD_OP_READ
        \<and> uint (inbuf ! (length inbuf - 3))
            \<noteq> uint (pkt_count inbuf) - (int (length inbuf) - 7)"
  then have b: "pkt_cmd inbuf AND PC_CMD_OP_MASK \<noteq> 0" "pkt_cmd inbuf AND PC_CMD_OP_READ \<noteq> 0"
    using op_read_bits by blast+
  have "bogus_of inbuf = (if crc16 inbuf \<noteq> 0 then 2 else 5)"
    using a b pktcore_of_bound [of inbuf] by (simp add: bogus_of_def Let_def)
  then show "dispatch_packet Core inbuf
            = (Discarded (if crc16 inbuf \<noteq> 0 then 2 else 5), [M_BADPKT])"
    by (simp add: dispatch_packet_def Let_def)
qed

lemmas eval_dispatch = dispatch_packet_def bogus_of_def pktcore_of_def pkt_cmd_def pkt_core_def
  pkt_count_def pkt_reg_def crc16_def crc16_step_def Let_def NUM_CORE_def PC_CMD_OP_MASK_def
  PC_CMD_OP_READ_def globalinit_Core_def

theorem dispatch_runt_and_read_length_witness:
  "length [0x86, 0xE0, 0x00 :: byte] < 6
   \<and> dispatch_packet globalinit_Core [0x86, 0xE0, 0x00] = (Discarded 1, [M_BADPKT])
   \<and> pkt_cmd [0x86, 0xE0, 0x00, 0x03, 0xcc, 0xbb, 0xaa, 0x00, 0x8B, 0x56] AND PC_CMD_OP_MASK
       = PC_CMD_OP_READ
   \<and> fst (dispatch_packet
             (globalinit_Core(0 := \<lparr>slot_id = 0, core_id = 0, driv_id = 7, pcb = 4096\<rparr>))
             [0x86, 0xE0, 0x00, 0x03, 0xcc, 0xbb, 0xaa, 0x00, 0x8B, 0x56])
       = Callback 4096 0 [0x86, 0xE0, 0x00, 0x03, 0xcc, 0xbb, 0xaa, 0x00, 0x8B, 0x56] 8
   \<and> uint ([0x86, 0xE0, 0x00, 0x03, 0xcc, 0xbb, 0xaa, 0x00, 0x8B, 0x56 :: byte] ! 7) = 3 - (10 - 7)
   \<and> 6 \<le> length [0x86, 0xE0, 0x00, 0x03, 0xcc, 0xbb, 0x00, 0x8B, 0x59 :: byte]
   \<and> uint ([0x86, 0xE0, 0x00, 0x03, 0xcc, 0xbb, 0x00, 0x8B, 0x59 :: byte] ! 6) \<noteq> 3 - (9 - 7)
   \<and> dispatch_packet globalinit_Core [0x86, 0xE0, 0x00, 0x03, 0xcc, 0xbb, 0x00, 0x8B, 0x59]
       = (Discarded 5, [M_BADPKT])"
  using dispatch_runt_and_read_length
          [of "[0x86, 0xE0, 0x00]" globalinit_Core]
        dispatch_runt_and_read_length
          [of "[0x86, 0xE0, 0x00, 0x03, 0xcc, 0xbb, 0xaa, 0x00, 0x8B, 0x56]"
              "globalinit_Core(0 := \<lparr>slot_id = 0, core_id = 0, driv_id = 7, pcb = 4096\<rparr>)"
              4096 0 "[0x86, 0xE0, 0x00, 0x03, 0xcc, 0xbb, 0xaa, 0x00, 0x8B, 0x56]" 8]
        dispatch_runt_and_read_length
          [of "[0x86, 0xE0, 0x00, 0x03, 0xcc, 0xbb, 0x00, 0x8B, 0x59]" globalinit_Core]
  by (simp add: eval_dispatch)

text \<open>A write response of core 1, with its checksum, used as an example below.\<close>

lemma ack_frame_crc: "crc16 [0x88, 0xE1, 0x04, 0x04, 0x43, 0xBA] = 0"
  by (simp add: crc16_def crc16_step_def Let_def)

lemma ack_frame_bad_crc: "crc16 [0x88, 0xE1, 0x04, 0x04, 0x43, 0xBB] = 0x1021"
  by (simp add: crc16_def crc16_step_def Let_def)

lemma ack_frame_bogus: "bogus_of [0x88, 0xE1, 0x04, 0x04, 0x43, 0xBA] = 0"
  by (simp add: bogus_of_def ack_frame_crc pkt_cmd_def pkt_core_def pktcore_of_def
      PC_CMD_OP_MASK_def PC_CMD_OP_READ_def NUM_CORE_def)

lemma ack_frame_core: "pktcore_of [0x88, 0xE1, 0x04, 0x04, 0x43, 0xBA] = 1"
  by (simp add: pkt_core_def pktcore_of_def)

text \<open>
  Claim C3 says that a callback is called only if the \<open>slot_id\<close> of the core is a valid
  index of the slot table. \<open>dispatch_packet\<close> does not look at \<open>slot_id\<close>: for a core
  that has a callback and still the \<open>slot_id = -1\<close> of \<open>globalinit\<close>, the callback is
  called for a frame with a good checksum, with the slot at index \<open>-1\<close>.
\<close>

theorem dispatch_ignores_slot_id_counterexample:
  "dispatch_packet
     (globalinit_Core(1 := \<lparr>slot_id = -1, core_id = 1, driv_id = 7, pcb = 4096\<rparr>))
     [0x88, 0xE1, 0x04, 0x04, 0x43, 0xBA]
   = (Callback 4096 (-1) [0x88, 0xE1, 0x04, 0x04, 0x43, 0xBA] 4, [])
   \<and> slot_id ((globalinit_Core(1 := \<lparr>slot_id = -1, core_id = 1, driv_id = 7, pcb = 4096\<rparr>))
                (pktcore_of [0x88, 0xE1, 0x04, 0x04, 0x43, 0xBA])) < 0"
  by (simp add: dispatch_packet_def ack_frame_bogus ack_frame_core)

text \<open>
  Claim C3, as the code has it. \<open>dispatch_packet\<close> calls a callback only for a frame of
  at least 6 bytes whose checksum over all its bytes is 0, and only the callback
  registered for the core the frame names, which is then not null; it passes the slot
  \<open>Slots[Core[pktcore].slot_id]\<close> with the \<open>slot_id\<close> as the table holds it, without a
  check of its own. A frame whose checksum fails is logged and discarded; a frame that
  passes the checks for a core without callback is logged and discarded.
\<close>

theorem dispatch_callback_only_if:
  "(fst (dispatch_packet Core inbuf) = Callback f s p n \<longrightarrow>
      6 \<le> length inbuf \<and> crc16 inbuf = 0
      \<and> f = pcb (Core (pktcore_of inbuf)) \<and> f \<noteq> 0
      \<and> s = slot_id (Core (pktcore_of inbuf)) \<and> p = inbuf \<and> n = int (length inbuf) - 2)
   \<and> (crc16 inbuf \<noteq> 0 \<longrightarrow>
        dispatch_packet Core inbuf
          = (Discarded (if length inbuf < 6 then 1 else 2), [M_BADPKT]))
   \<and> (bogus_of inbuf = 0 \<and> pcb (Core (pktcore_of inbuf)) = 0 \<longrightarrow>
        dispatch_packet Core inbuf = (No_driver, [M_NOSO (core_id (Core (pktcore_of inbuf)))]))"
proof (intro conjI impI)
  assume a: "fst (dispatch_packet Core inbuf) = Callback f s p n"
  then have b: "bogus_of inbuf = 0" by (rule dispatch_callback_bogus)
  from bogus_0_basic [OF b] show "6 \<le> length inbuf" "crc16 inbuf = 0" by simp_all
  from a b show "f = pcb (Core (pktcore_of inbuf))" "f \<noteq> 0"
    "s = slot_id (Core (pktcore_of inbuf))" "p = inbuf" "n = int (length inbuf) - 2"
    by (auto simp add: dispatch_packet_def Let_def split: if_splits)
next
  assume "crc16 inbuf \<noteq> 0"
  then show "dispatch_packet Core inbuf
          = (Discarded (if length inbuf < 6 then 1 else 2), [M_BADPKT])"
    by (simp add: dispatch_packet_def bogus_of_def Let_def)
next
  assume "bogus_of inbuf = 0 \<and> pcb (Core (pktcore_of inbuf)) = 0"
  then show "dispatch_packet Core inbuf
               = (No_driver, [M_NOSO (core_id (Core (pktcore_of inbuf)))])"
    by (simp add: dispatch_packet_def Let_def)
qed


theorem dispatch_callback_only_if_witness:
  "fst (dispatch_packet
          (globalinit_Core(1 := \<lparr>slot_id = 1, core_id = 1, driv_id = 7, pcb = 4096\<rparr>))
          [0x88, 0xE1, 0x04, 0x04, 0x43, 0xBA])
     = Callback 4096 1 [0x88, 0xE1, 0x04, 0x04, 0x43, 0xBA] 4
   \<and> crc16 [0x88, 0xE1, 0x04, 0x04, 0x43, 0xBA] = 0
   \<and> crc16 [0x88, 0xE1, 0x04, 0x04, 0x43, 0xBB] \<noteq> 0
   \<and> dispatch_packet
          (globalinit_Core(1 := \<lparr>slot_id = 1, core_id = 1, driv_id = 7, pcb = 4096\<rparr>))
          [0x88, 0xE1, 0x04, 0x04, 0x43, 0xBB]
     = (Discarded 2, [M_BADPKT])
   \<and> bogus_of [0x88, 0xE1, 0x04, 0x04, 0x43, 0xBA] = 0
   \<and> pcb (globalinit_Core (pktcore_of [0x88, 0xE1, 0x04, 0x04, 0x43, 0xBA])) = 0
   \<and> dispatch_packet globalinit_Core [0x88, 0xE1, 0x04, 0x04, 0x43, 0xBA]
     = (No_driver, [M_NOSO 1])"
proof -
  have cb: "fst (dispatch_packet
          (globalinit_Core(1 := \<lparr>slot_id = 1, core_id = 1, driv_id = 7, pcb = 4096\<rparr>))
          [0x88, 0xE1, 0x04, 0x04, 0x43, 0xBA])
     = Callback 4096 1 [0x88, 0xE1, 0x04, 0x04, 0x43, 0xBA] 4"
    by (simp add: dispatch_packet_def ack_frame_bogus ack_frame_core)
  have nocb: "pcb (globalinit_Core (pktcore_of [0x88, 0xE1, 0x04, 0x04, 0x43, 0xBA])) = 0"
    "core_id (globalinit_Core (pktcore_of [0x88, 0xE1, 0x04, 0x04, 0x43, 0xBA])) = 1"
    by (simp_all add: ack_frame_core globalinit_Core_def)
  from cb
    dispatch_callback_only_if
          [of "globalinit_Core(1 := \<lparr>slot_id = 1, core_id = 1, driv_id = 7, pcb = 4096\<rparr>)"
              "[0x88, 0xE1, 0x04, 0x04, 0x43, 0xBA]" 4096 1
              "[0x88, 0xE1, 0x04, 0x04, 0x43, 0xBA]" 4]
    dispatch_callback_only_if
          [of "globalinit_Core(1 := \<lparr>slot_id = 1, core_id = 1, driv_id = 7, pcb = 4096\<rparr>)"
              "[0x88, 0xE1, 0x04, 0x04, 0x43, 0xBB]"]
    dispatch_callback_only_if
          [of globalinit_Core "[0x88, 0xE1, 0x04, 0x04, 0x43, 0xBA]"]
  show ?thesis
    by (simp add: ack_frame_crc ack_frame_bad_crc ack_frame_bogus nocb)
qed

section \<open>Properties of the transmit path\<close>

lemma cmd_nibble: "(c OR 0xf0) AND 0xf0 = (0xf0 :: byte)"
  by (simp add: bit.conj_disj_distrib2)

lemma core_nibble_split: "(c OR 0xe0) AND 0xf0 = (c AND 0x10) OR (0xe0 :: byte)"
proof -
  have "(c OR 0xe0) AND 0xf0 = (c AND 0xf0) OR (0xe0 :: byte)"
    by (simp add: bit.conj_disj_distrib2)
  also have "(c AND 0xf0) OR (0xe0 :: byte) = (c AND (0x10 OR 0xe0)) OR 0xe0" by simp
  also have "\<dots> = ((c AND 0x10) OR (c AND 0xe0)) OR 0xe0"
    by (simp only: bit.conj_disj_distrib)
  also have "\<dots> = (c AND 0x10) OR ((c AND 0xe0) OR 0xe0)" by (simp only: or.assoc)
  also have "(c AND 0xe0) OR 0xe0 = (0xe0 :: byte)"
    by (simp add: or.commute)
  finally show ?thesis .
qed


lemma core_nibble_e:
  "((c OR 0xe0) AND 0xf0 = (0xe0 :: byte)) \<longleftrightarrow> c AND 0x10 = 0"
proof
  assume "(c OR 0xe0) AND 0xf0 = (0xe0 :: byte)"
  then have "(c AND 0x10) OR 0xe0 = (0xe0 :: byte)" by (simp only: core_nibble_split)
  then have "((c AND 0x10) OR 0xe0) AND 0x10 = (0xe0 :: byte) AND 0x10" by simp
  then show "c AND 0x10 = 0" by (simp add: bit.conj_disj_distrib2 and.assoc)
next
  assume "c AND 0x10 = 0"
  then show "(c OR 0xe0) AND 0xf0 = (0xe0 :: byte)" by (simp add: core_nibble_split)
qed

lemma core_below_16:
  assumes "(c :: byte) < 16"
  shows "c AND 0x10 = 0"
proof -
  have "c < 2 ^ 4" using assms by simp
  then have "c AND mask 4 = c" by (rule less_mask_eq)
  then have "c AND 0x10 = (c AND mask 4) AND 0x10" by simp
  also have "\<dots> = c AND (mask 4 AND 0x10)" by (simp only: and.assoc)
  also have "mask 4 AND (0x10 :: byte) = 0" by (simp add: mask_eq_exp_minus_1)
  finally show ?thesis by simp
qed

lemma four_bytes:
  assumes "4 \<le> length xs"
  obtains a b c d rest where "xs = a # b # c # d # rest"
proof -
  from assms obtain a x1 where 1: "xs = a # x1" "3 \<le> length x1" by (cases xs) auto
  then obtain b x2 where 2: "x1 = b # x2" "2 \<le> length x2" by (cases x1) auto
  then obtain c x3 where 3: "x2 = c # x3" "1 \<le> length x3" by (cases x2) auto
  then obtain d x4 where 4: "x3 = d # x4" by (cases x3) auto
  from 1 2 3 4 have "xs = a # b # c # d # x4" by simp
  then show ?thesis by (rule that)
qed

lemma force_nibbles_bytes:
  assumes "4 \<le> length inpkt"
  shows "pkt_cmd (force_nibbles inpkt) = pkt_cmd inpkt OR 0xf0"
    and "pkt_core (force_nibbles inpkt) = pkt_core inpkt OR 0xe0"
    and "length (force_nibbles inpkt) = length inpkt"
    and "drop 2 (force_nibbles inpkt) = drop 2 inpkt"
proof -
  from assms obtain a b c d rest where "inpkt = a # b # c # d # rest" by (rule four_bytes)
  then show "pkt_cmd (force_nibbles inpkt) = pkt_cmd inpkt OR 0xf0"
    and "pkt_core (force_nibbles inpkt) = pkt_core inpkt OR 0xe0"
    and "length (force_nibbles inpkt) = length inpkt"
    and "drop 2 (force_nibbles inpkt) = drop 2 inpkt"
    by (simp_all add: force_nibbles_def pkt_cmd_def pkt_core_def)
qed

lemma pctoslip_keeps_packet:
  "take (length pk) (fst (pctoslip pk)) = pk"
  by (simp add: pctoslip_def Let_def)

lemma pkt_bytes_take:
  assumes "2 \<le> n"
  shows "pkt_cmd (take n xs) = pkt_cmd xs" "pkt_core (take n xs) = pkt_core xs"
  using assms by (simp_all add: pkt_cmd_def pkt_core_def)

lemma pc_tx_pkt_packet_after:
  assumes "pc_tx_pkt fpgaFD inpkt wr = Inr r" "4 \<le> length inpkt"
  shows "take (length inpkt) (tx_inpkt r) = force_nibbles inpkt"
proof -
  have "take (length (force_nibbles inpkt)) (fst (pctoslip (force_nibbles inpkt)))
          = force_nibbles inpkt"
    by (rule pctoslip_keeps_packet)
  then have k: "take (length inpkt) (fst (pctoslip (force_nibbles inpkt))) = force_nibbles inpkt"
    using assms(2) by (simp add: force_nibbles_bytes)
  have l: "take (length inpkt) (force_nibbles inpkt) = force_nibbles inpkt"
    using assms(2) by (simp add: force_nibbles_bytes)
  show ?thesis
    using assms k l
    by (auto simp add: pc_tx_pkt_def Let_def split: if_splits prod.splits write_result.splits)
qed

lemma pc_tx_pkt_wire:
  assumes "pc_tx_pkt fpgaFD inpkt wr = Inr r" "4 \<le> length inpkt" "fpgaFD \<noteq> -1"
  shows "tx_wire r = (case wr of Write_error errno \<Rightarrow> []
                      | Write_count k \<Rightarrow> take k (snd (pctoslip (force_nibbles inpkt))))"
  using assms
  by (auto simp add: pc_tx_pkt_def Let_def split: if_splits prod.splits write_result.splits)




lemma pc_tx_pkt_within_buffers:
  assumes "length inpkt \<le> 254"
  shows "\<exists>r. pc_tx_pkt fpgaFD inpkt wr = Inr r"
proof (cases "length inpkt < 4")
  case True
  then show ?thesis by (simp add: pc_tx_pkt_def)
next
  case False
  then have l: "length (force_nibbles inpkt) = length inpkt"
    by (simp add: force_nibbles_bytes)
  let ?pk = "force_nibbles inpkt @ crc_trailer (force_nibbles inpkt)"
  have "length (slip_stuff ?pk) \<le> 2 * length ?pk" by (rule length_slip_stuff)
  moreover have "length ?pk = length inpkt + 2" using l by (simp add: crc_trailer_def Let_def)
  ultimately have "length (slip_stuff ?pk) \<le> 512" using assms by simp
  then show ?thesis
    using assms l False
    by (cases wr)
       (simp_all add: pc_tx_pkt_def pctoslip_def Let_def PC_PKTLEN_def crc_trailer_def)
qed

lemma dispatch_passes_packet:
  assumes "fst (dispatch_packet Core inbuf) = Callback f s p n"
  shows "p = inbuf" "f = pcb (Core (unat (pkt_core inbuf AND 0x0f)))"
  using assms by (auto simp add: dispatch_packet_def pktcore_of_def Let_def split: if_splits)

lemmas eval_tx = pc_tx_pkt_def force_nibbles_def pctoslip_def crc_trailer_def crc16_def
  crc16_step_def Let_def PC_PKTLEN_def EAGAIN_def pkt_cmd_def pkt_core_def
  SLIP_END_def SLIP_ESC_def INPKT_END_def INPKT_ESC_def

lemma tx_read_request:
  "pc_tx_pkt 3 [0x06, 0x01, 0x00, 0x03] (Write_count 8)
     = Inr \<lparr>tx_ret = 0, tx_inpkt = [0xF6, 0xE1, 0x00, 0x03, 0x1F, 0xB6],
           tx_wire = [0xC0, 0xF6, 0xE1, 0x00, 0x03, 0x1F, 0xB6, 0xC0], tx_log = []\<rparr>"
  by (simp add: eval_tx)









lemma rx_frame_with_nibbles_crc: "crc16 [0xF8, 0xE1, 0x04, 0x04, 0x01, 0xCF] = 0"
  by (simp add: crc16_def crc16_step_def Let_def)

lemma rx_frame_with_nibbles:
  "dispatch_packet (globalinit_Core(1 := \<lparr>slot_id = 1, core_id = 1, driv_id = 7, pcb = 4096\<rparr>))
     [0xF8, 0xE1, 0x04, 0x04, 0x01, 0xCF]
   = (Callback 4096 1 [0xF8, 0xE1, 0x04, 0x04, 0x01, 0xCF] 4, [])"
  by (simp add: dispatch_packet_def bogus_of_def rx_frame_with_nibbles_crc pkt_cmd_def
      pkt_core_def pktcore_of_def PC_CMD_OP_MASK_def PC_CMD_OP_READ_def NUM_CORE_def)

lemma tx_core_bit4:
  "pc_tx_pkt 3 [0x06, 0x10, 0x00, 0x03] (Write_count 8)
     = Inr \<lparr>tx_ret = 0, tx_inpkt = [0xF6, 0xF0, 0x00, 0x03, 0x6B, 0xE5],
           tx_wire = [0xC0, 0xF6, 0xF0, 0x00, 0x03, 0x6B, 0xE5, 0xC0], tx_log = []\<rparr>"
  by (simp add: eval_tx)

text \<open>
  Claim C6 says that the sanity nibbles are stripped from \<open>cmd\<close> and \<open>core\<close> before a
  received packet reaches the driver, and that the high nibble of \<open>core\<close> is forced to
  \<open>0xE\<close> on transmit. On the code, a frame received with \<open>cmd = 0xF8\<close> and
  \<open>core = 0xE1\<close> is passed to the callback with these two bytes as they came; and a
  packet sent with the core byte \<open>0x10\<close> leaves with the core byte \<open>0xF0\<close>.
\<close>

theorem nibbles_not_stripped_counterexample:
  "dispatch_packet (globalinit_Core(1 := \<lparr>slot_id = 1, core_id = 1, driv_id = 7, pcb = 4096\<rparr>))
     [0xF8, 0xE1, 0x04, 0x04, 0x01, 0xCF]
   = (Callback 4096 1 [0xF8, 0xE1, 0x04, 0x04, 0x01, 0xCF] 4, [])
   \<and> pkt_cmd [0xF8, 0xE1, 0x04, 0x04, 0x01, 0xCF] AND 0xf0 = 0xf0
   \<and> pkt_core [0xF8, 0xE1, 0x04, 0x04, 0x01, 0xCF] AND 0xf0 = 0xe0
   \<and> pc_tx_pkt 3 [0x06, 0x10, 0x00, 0x03] (Write_count 8)
     = Inr \<lparr>tx_ret = 0, tx_inpkt = [0xF6, 0xF0, 0x00, 0x03, 0x6B, 0xE5],
           tx_wire = [0xC0, 0xF6, 0xF0, 0x00, 0x03, 0x6B, 0xE5, 0xC0], tx_log = []\<rparr>
   \<and> pkt_core [0xF6, 0xF0, 0x00, 0x03, 0x6B, 0xE5] AND 0xf0 = 0xf0"
  using rx_frame_with_nibbles tx_core_bit4 by (simp add: pkt_cmd_def pkt_core_def)

text \<open>
  Claim C6, as the code has it. For a packet of at least 4 bytes \<open>pc_tx_pkt\<close> replaces
  \<open>cmd\<close> by \<open>cmd | 0xf0\<close> and \<open>core\<close> by \<open>core | 0xe0\<close> in the caller's packet before
  it encodes it: the high nibble of \<open>cmd\<close> is then \<open>0xF\<close>, and the high nibble of
  \<open>core\<close> is \<open>0xE\<close> exactly when bit 4 of the core byte was clear, as it is for every
  core number below 16; what goes to the port is a prefix of the frame of that packet.
  On receive \<open>dispatch_packet\<close> masks the core byte with \<open>0x0f\<close> only to select the
  callback; the packet it hands to the callback is the received one, unchanged.
\<close>

theorem sanity_nibbles_forced_and_passed_on:
  "(pc_tx_pkt fpgaFD inpkt wr = Inr r \<and> 4 \<le> length inpkt \<longrightarrow>
        take (length inpkt) (tx_inpkt r) = force_nibbles inpkt
      \<and> pkt_cmd (tx_inpkt r) = pkt_cmd inpkt OR 0xf0
      \<and> pkt_cmd (tx_inpkt r) AND 0xf0 = 0xf0
      \<and> pkt_core (tx_inpkt r) = pkt_core inpkt OR 0xe0
      \<and> (pkt_core (tx_inpkt r) AND 0xf0 = 0xe0 \<longleftrightarrow> pkt_core inpkt AND 0x10 = 0)
      \<and> (pkt_core inpkt < 16 \<longrightarrow> pkt_core (tx_inpkt r) AND 0xf0 = 0xe0)
      \<and> (fpgaFD \<noteq> -1 \<longrightarrow>
            tx_wire r = (case wr of Write_error errno \<Rightarrow> []
                         | Write_count k \<Rightarrow> take k (snd (pctoslip (force_nibbles inpkt))))))
   \<and> (fst (dispatch_packet Core inbuf) = Callback f s p n \<longrightarrow>
        p = inbuf \<and> f = pcb (Core (unat (pkt_core inbuf AND 0x0f))))"
proof (intro conjI impI)
  assume a: "pc_tx_pkt fpgaFD inpkt wr = Inr r \<and> 4 \<le> length inpkt"
  then have t: "take (length inpkt) (tx_inpkt r) = force_nibbles inpkt"
    using pc_tx_pkt_packet_after [of fpgaFD inpkt wr r] by simp
  then show "take (length inpkt) (tx_inpkt r) = force_nibbles inpkt" .
  from a have n: "2 \<le> length inpkt" by simp
  have "pkt_cmd (tx_inpkt r) = pkt_cmd (take (length inpkt) (tx_inpkt r))"
    using n by (simp add: pkt_bytes_take)
  then show c: "pkt_cmd (tx_inpkt r) = pkt_cmd inpkt OR 0xf0"
    using a t by (simp add: force_nibbles_bytes)
  then show "pkt_cmd (tx_inpkt r) AND 0xf0 = 0xf0" by (simp add: cmd_nibble)
  have "pkt_core (tx_inpkt r) = pkt_core (take (length inpkt) (tx_inpkt r))"
    using n by (simp add: pkt_bytes_take)
  then show d: "pkt_core (tx_inpkt r) = pkt_core inpkt OR 0xe0"
    using a t by (simp add: force_nibbles_bytes)
  then show e: "pkt_core (tx_inpkt r) AND 0xf0 = 0xe0 \<longleftrightarrow> pkt_core inpkt AND 0x10 = 0"
    by (simp add: core_nibble_e)
  {
    assume "pkt_core inpkt < 16"
    then have "pkt_core inpkt AND 0x10 = 0" by (rule core_below_16)
    with e show "pkt_core (tx_inpkt r) AND 0xf0 = 0xe0" by simp
  }
  {
    assume "fpgaFD \<noteq> -1"
    with a show "tx_wire r = (case wr of Write_error errno \<Rightarrow> []
                         | Write_count k \<Rightarrow> take k (snd (pctoslip (force_nibbles inpkt))))"
      using pc_tx_pkt_wire [of fpgaFD inpkt wr r] by simp
  }
next
  assume "fst (dispatch_packet Core inbuf) = Callback f s p n"
  then show "p = inbuf" "f = pcb (Core (unat (pkt_core inbuf AND 0x0f)))"
    by (rule dispatch_passes_packet)+
qed

theorem sanity_nibbles_forced_and_passed_on_witness:
  "pc_tx_pkt 3 [0x06, 0x01, 0x00, 0x03] (Write_count 8)
     = Inr \<lparr>tx_ret = 0, tx_inpkt = [0xF6, 0xE1, 0x00, 0x03, 0x1F, 0xB6],
           tx_wire = [0xC0, 0xF6, 0xE1, 0x00, 0x03, 0x1F, 0xB6, 0xC0], tx_log = []\<rparr>
   \<and> 4 \<le> length [0x06, 0x01, 0x00, 0x03 :: byte]
   \<and> pkt_core [0x06, 0x01, 0x00, 0x03] < 16 \<and> (3 :: int) \<noteq> -1
   \<and> pkt_cmd [0xF6, 0xE1, 0x00, 0x03, 0x1F, 0xB6] AND 0xf0 = 0xf0
   \<and> pkt_core [0xF6, 0xE1, 0x00, 0x03, 0x1F, 0xB6] AND 0xf0 = 0xe0
   \<and> fst (dispatch_packet
            (globalinit_Core(1 := \<lparr>slot_id = 1, core_id = 1, driv_id = 7, pcb = 4096\<rparr>))
            [0xF8, 0xE1, 0x04, 0x04, 0x01, 0xCF])
     = Callback 4096 1 [0xF8, 0xE1, 0x04, 0x04, 0x01, 0xCF] 4"
  using sanity_nibbles_forced_and_passed_on
          [of 3 "[0x06, 0x01, 0x00, 0x03]" "Write_count 8"
              "\<lparr>tx_ret = 0, tx_inpkt = [0xF6, 0xE1, 0x00, 0x03, 0x1F, 0xB6],
                tx_wire = [0xC0, 0xF6, 0xE1, 0x00, 0x03, 0x1F, 0xB6, 0xC0], tx_log = []\<rparr>"
              "globalinit_Core(1 := \<lparr>slot_id = 1, core_id = 1, driv_id = 7, pcb = 4096\<rparr>)"
              "[0xF8, 0xE1, 0x04, 0x04, 0x01, 0xCF]" 4096 1
              "[0xF8, 0xE1, 0x04, 0x04, 0x01, 0xCF]" 4]
    tx_read_request rx_frame_with_nibbles
  by (simp add: pkt_core_def pkt_cmd_def)

section \<open>Properties of the drivers\<close>






lemma read_request_sent:
  assumes "length pkt = 4"
  shows "\<exists>tx. pc_tx_pkt fpgaFD pkt wr = Inr tx"
  using assms by (intro pc_tx_pkt_within_buffers) simp

lemma char_cast_small:
  assumes "0 \<le> cn" "cn < 128"
  shows "char_cast char_signed cn = cn"
proof -
  have "sint (word_of_int cn :: 8 word) = signed_take_bit 7 cn"
    by (simp add: sint_sbintrunc')
  also have "\<dots> = cn" using assms by (intro signed_take_bit_int_eq_self) simp_all
  finally have s: "sint (word_of_int cn :: 8 word) = cn" .
  have "uint (word_of_int cn :: 8 word) = take_bit 8 cn" by (simp add: uint_word_of_int_eq)
  also have "\<dots> = cn" using assms by (simp add: take_bit_int_eq_self)
  finally have u: "uint (word_of_int cn :: 8 word) = cn" .
  from s u show ?thesis by (simp add: char_cast_def)
qed


lemma usercmd_sent:
  assumes "fpgaFD \<noteq> -1"
    and "wr = Write_count (length (snd (pctoslip (force_nibbles (read_switches_pkt coreid)))))"
  shows "usercmd_pcget_switches char_signed fpgaFD wr new_timer coreid cn plen dev
           = Inr \<lparr>uc_buf = [], uc_plen = 0,
                  uc_dev = (if ptimer (fst dev) = 0 then (fst dev)\<lparr>ptimer := new_timer\<rparr>
                             else fst dev,
                            (snd dev)\<lparr>uilock := char_cast char_signed cn\<rparr>),
                  uc_calls = (if ptimer (fst dev) = 0 then [Add_timer_oneshot 100] else []),
                  uc_wire = snd (pctoslip (force_nibbles (read_switches_pkt coreid)))\<rparr>"
proof -
  let ?pkt = "read_switches_pkt coreid"
  have len: "length ?pkt = 4" by (simp add: read_switches_pkt_def)
  obtain tx where tx: "pc_tx_pkt fpgaFD ?pkt wr = Inr tx"
    using read_request_sent [OF len] by blast
  then have "tx_ret tx = 0" "tx_wire tx = snd (pctoslip (force_nibbles ?pkt))"
    using assms len
    by (auto simp add: pc_tx_pkt_def Let_def split: if_splits prod.splits)
  with tx show ?thesis
    by (simp add: usercmd_pcget_switches_def Let_def read_switches_pkt_def)
qed









lemma read_request_frame:
  "snd (pctoslip (force_nibbles (read_switches_pkt 0)))
     = [0xC0, 0xF6, 0xE0, 0x00, 0x03, 0x28, 0x86, 0xC0]"
  by (simp add: read_switches_pkt_def force_nibbles_def pctoslip_def crc_trailer_def crc16_def
      crc16_step_def Let_def PC_PKTLEN_def pkt_cmd_def pkt_core_def
      PC_CMD_OP_READ_def PC_CMD_AUTOINC_def BASYS_REG_SWITCHES_def
      SLIP_END_def SLIP_ESC_def INPKT_END_def INPKT_ESC_def)


lemma get_switches_sent_example:
  "usercmd_pcget_switches True 3 (Write_count 8) 77 0 5 100
       (\<lparr>lastswitch = 0, disp_text = [], segs = [], ptimer = 0, drivlist = []\<rparr>,
        \<lparr>bkey = 0, uilock = -1\<rparr>)
     = Inr \<lparr>uc_buf = [], uc_plen = 0,
          uc_dev = (\<lparr>lastswitch = 0, disp_text = [], segs = [], ptimer = 77, drivlist = []\<rparr>,
                    \<lparr>bkey = 0, uilock = 5\<rparr>),
          uc_calls = [Add_timer_oneshot 100],
          uc_wire = [0xC0, 0xF6, 0xE0, 0x00, 0x03, 0x28, 0x86, 0xC0]\<rparr>"
proof -
  have "char_cast True 5 = 5" by (rule char_cast_small) simp_all
  then show ?thesis
    using usercmd_sent [of 3 "Write_count 8" 0 True 77 5 100]
    by (simp add: read_request_frame)
qed




end
